theory Spec2Isabelle
  imports Main
begin

section \<open>Values, exceptions and attribute lookup\<close>

text \<open>
  The Python values that the client stores in its history and reads from and writes
  to its files: \<open>None\<close>, integers, strings, tuples, lists and dictionaries with
  string keys (in insertion order). On values without dictionaries, equality in HOL
  is Python's \<open>==\<close> (a tuple never equals a list).
\<close>

datatype pyval =
    PNone
  | PInt int
  | PStr string
  | PTuple "pyval list"
  | PList "pyval list"
  | PDict "(string \<times> pyval) list"

text \<open>The truth value of \<open>if v\<close>, \<open>not v\<close> and \<open>v or w\<close>.\<close>

fun truthy :: "pyval \<Rightarrow> bool" where
  "truthy PNone = False"
| "truthy (PInt i) = (i \<noteq> 0)"
| "truthy (PStr s) = (s \<noteq> [])"
| "truthy (PTuple xs) = (xs \<noteq> [])"
| "truthy (PList xs) = (xs \<noteq> [])"
| "truthy (PDict kvs) = (kvs \<noteq> [])"

text \<open>\<open>v or w\<close>\<close>

definition py_or :: "pyval \<Rightarrow> pyval \<Rightarrow> pyval" where
  "py_or v w = (if truthy v then v else w)"


text \<open>The exceptions of the source, by class. \<open>OSError\<close> is \<open>socket.error\<close> and \<open>IOError\<close>.\<close>

datatype exn =
    AttributeError
  | IndexError
  | ValueError
  | TypeError
  | OverflowError
  | EOFError
  | OSError
  | UnboundLocalError
  | SystemExit

text \<open>
  \<open>except socket.error\<close> catches \<open>OSError\<close>; \<open>except Exception\<close> catches everything
  but \<open>SystemExit\<close>, which \<open>sys.exit\<close> and \<open>exit\<close> raise.
\<close>

definition is_socket_error :: "exn \<Rightarrow> bool" where
  "is_socket_error e = (e = OSError)"

definition is_Exception :: "exn \<Rightarrow> bool" where
  "is_Exception e = (e \<noteq> SystemExit)"

text \<open>
  The outcome of a call: it returns a value, raises, or the model runs out of the
  fuel that bounds the depth of nested \<open>navigate\<close> calls.
\<close>

datatype 'a result = Value 'a | Raised exn | OutOfFuel

text \<open>
  \<open>self.name\<close> on an instance whose attributes are \<open>attrs\<close>: the lookup raises
  \<open>AttributeError\<close> when no method of the class ever assigns \<open>name\<close>.
\<close>

definition getattr :: "string list \<Rightarrow> string \<Rightarrow> exn + unit" where
  "getattr attrs name = (if name \<in> set attrs then Inr () else Inl AttributeError)"

section \<open>ImprovedHistoryManager\<close>

record ImprovedHistoryManager =
  backward_history :: "pyval list"
  forward_history :: "pyval list"
  max_history :: int
  history_file :: "string option"

text \<open>\<open>__init__(self, max_history=5, history_file=None)\<close>\<close>

definition ImprovedHistoryManager_init :: "int \<Rightarrow> string option \<Rightarrow> ImprovedHistoryManager" where
  "ImprovedHistoryManager_init n f =
     \<lparr>backward_history = [], forward_history = [], max_history = n, history_file = f\<rparr>"

text \<open>The attributes \<open>__init__\<close> assigns; no other method of the class assigns any.\<close>

definition ImprovedHistoryManager_attrs :: "string list" where
  "ImprovedHistoryManager_attrs =
     [''backward_history'', ''forward_history'', ''max_history'', ''history_file'']"

text \<open>\<open>record(self, address)\<close>: append, and empty the forward list.\<close>

definition record_address :: "ImprovedHistoryManager \<Rightarrow> pyval \<Rightarrow> ImprovedHistoryManager" where
  "record_address h address =
     h\<lparr>backward_history := backward_history h @ [address], forward_history := []\<rparr>"

text \<open>
  \<open>add_page(self, page)\<close>. \<open>pop(0)\<close> on an empty list raises \<open>IndexError\<close>, which
  happens when the list is empty and \<open>max_history\<close> is 0. What the history manager
  prints is not modelled.
\<close>

definition add_page :: "ImprovedHistoryManager \<Rightarrow> pyval \<Rightarrow> exn + ImprovedHistoryManager" where
  "add_page h page =
     (if backward_history h = [] \<or> last (backward_history h) \<noteq> page then
        (if int (length (backward_history h)) = max_history h then
           (case backward_history h of
              [] \<Rightarrow> Inl IndexError
            | _ # rest \<Rightarrow> Inr (h\<lparr>backward_history := rest @ [page], forward_history := []\<rparr>))
         else Inr (h\<lparr>backward_history := backward_history h @ [page], forward_history := []\<rparr>))
      else Inr h)"

text \<open>
  \<open>go_back(self)\<close>. The state is returned also when the call raises, since the pop
  and the append have happened by then. \<open>self.logging.debug(...)\<close> looks up
  \<open>logging\<close> on the history manager.
\<close>

definition go_back :: "ImprovedHistoryManager \<Rightarrow> ImprovedHistoryManager \<times> (exn + pyval)" where
  "go_back h =
     (if backward_history h = [] then (h, Inr PNone)
      else
        let last_address = last (backward_history h);
            h1 = h\<lparr>backward_history := butlast (backward_history h)\<rparr>;
            h2 = h1\<lparr>forward_history := forward_history h1 @ [last_address]\<rparr>
        in case getattr ImprovedHistoryManager_attrs ''logging'' of
             Inl e \<Rightarrow> (h2, Inl e)
           | Inr _ \<Rightarrow>
               (if backward_history h2 \<noteq> [] then (h2, Inr (last (backward_history h2)))
                else (h2, Inr PNone)))"

section \<open>Strings\<close>

abbreviation TAB :: char where "TAB \<equiv> CHR 0x09"
abbreviation NL :: char where "NL \<equiv> CHR 0x0A"

text \<open>
  \<open>s.split(sep)\<close> for a one-character separator: one more piece than there are
  separators, the empty string giving one empty piece.
\<close>

fun py_split :: "char \<Rightarrow> string \<Rightarrow> string list" where
  "py_split sep [] = [[]]"
| "py_split sep (c # cs) =
     (if c = sep then [] # py_split sep cs
      else (case py_split sep cs of [] \<Rightarrow> [[c]] | w # ws \<Rightarrow> (c # w) # ws))"

section \<open>Menu parser\<close>

text \<open>An entry is the tuple \<open>(entry_type, display_string, selector, server, port)\<close> of strings.\<close>

type_synonym entry = "string \<times> string \<times> string \<times> string \<times> string"

text \<open>
  The loop of \<open>_parse_gopher_menu\<close> over the lines, with the list \<open>entries\<close> built so
  far. \<open>parts[0][0]\<close> raises \<open>IndexError\<close> on an empty first field.
\<close>

fun parse_lines :: "string list \<Rightarrow> entry list \<Rightarrow> exn + entry list" where
  "parse_lines [] entries = Inr entries"
| "parse_lines (line # lines) entries =
     (let parts = py_split TAB line in
      if 4 \<le> length parts then
        (case parts ! 0 of
           [] \<Rightarrow> Inl IndexError
         | entry_type # display_string \<Rightarrow>
             parse_lines lines
               (entries @ [([entry_type], display_string, parts ! 1, parts ! 2, parts ! 3)]))
      else parse_lines lines entries)"

definition parse_gopher_menu :: "string \<Rightarrow> exn + entry list" where
  "parse_gopher_menu menu_data = parse_lines (py_split NL menu_data) []"

section \<open>Response classifier\<close>

subsection \<open>The double-precision product \<open>len(lines) * 0.20\<close>\<close>

text \<open>
  A non-negative double is a pair \<open>(m, e)\<close> with value \<open>m * 2 ^ e\<close>. \<open>bitlen n\<close> is the
  number of binary digits of \<open>n\<close>.
\<close>

type_synonym pyfloat = "nat \<times> int"

fun bitlen :: "nat \<Rightarrow> nat" where
  "bitlen n = (if n = 0 then 0 else Suc (bitlen (n div 2)))"

declare bitlen.simps [simp del]

text \<open>
  Rounding \<open>m * 2 ^ e\<close> to 53 significant bits, to nearest and ties to even: the
  rounding of every arithmetic operation on doubles.
\<close>

definition round_to_double :: "nat \<Rightarrow> int \<Rightarrow> pyfloat" where
  "round_to_double m e =
     (if m < 2 ^ 53 then (m, e)
      else
        let s = bitlen m - 53;
            q = m div 2 ^ s;
            r = m mod 2 ^ s;
            half = 2 ^ (s - 1)
        in (if half < r \<or> (r = half \<and> odd q) then q + 1 else q, e + int s))"

text \<open>
  The conversion of an \<open>int\<close> operand to \<open>float\<close>: Python raises \<open>OverflowError\<close> for
  an integer that rounds to \<open>2 ^ 1024\<close> or more.
\<close>

definition float_of_nat :: "nat \<Rightarrow> exn + pyfloat" where
  "float_of_nat n =
     (if 2 ^ 1024 - 2 ^ 970 \<le> n then Inl OverflowError else Inr (round_to_double n 0))"

text \<open>
  The product of two doubles. The exponent range is not modelled: the only product
  of the source has the factor \<open>0.20\<close> and a converted length, which stays in range.
\<close>

definition float_mul :: "pyfloat \<Rightarrow> pyfloat \<Rightarrow> pyfloat" where
  "float_mul x y = round_to_double (fst x * fst y) (snd x + snd y)"

text \<open>The literal \<open>0.20\<close>: the double nearest to one fifth, \<open>3602879701896397 / 2 ^ 54\<close>.\<close>

definition twenty_percent :: pyfloat where
  "twenty_percent = (3602879701896397, - 54)"

text \<open>\<open>c > x\<close> for an \<open>int\<close> \<open>c\<close> and a \<open>float\<close> \<open>x\<close>: Python compares the exact values.\<close>

definition int_gt_float :: "nat \<Rightarrow> pyfloat \<Rightarrow> bool" where
  "int_gt_float c x =
     (if 0 \<le> snd x then fst x * 2 ^ nat (snd x) < c
      else fst x < c * 2 ^ nat (- snd x))"

subsection \<open>The two tests\<close>

text \<open>\<open>sum(1 for line in lines if line.count('\t') >= 3)\<close>\<close>

definition menu_line_count :: "string list \<Rightarrow> nat" where
  "menu_line_count lines = length (filter (\<lambda>line. 3 \<le> count_list line TAB) lines)"

text \<open>The test of \<open>_display_gopher_menu\<close>: \<open>menu_line_count > len(lines) * 0.20\<close>.\<close>

definition exceeds_threshold :: "nat \<Rightarrow> nat \<Rightarrow> exn + bool" where
  "exceeds_threshold k n =
     (case float_of_nat n of
        Inl e \<Rightarrow> Inl e
      | Inr x \<Rightarrow> Inr (int_gt_float k (float_mul x twenty_percent)))"

datatype classification = Menu | Content

text \<open>
  What \<open>navigate\<close> does with a response: its own test \<open>'\t' in data\<close>, and for a
  response with a tab the test of \<open>_display_gopher_menu\<close>, which either parses and
  shows a menu or prints the text as it is.
\<close>

definition classify :: "string \<Rightarrow> exn + classification" where
  "classify data =
     (if TAB \<in> set data then
        (let lines = py_split NL data in
         case exceeds_threshold (menu_line_count lines) (length lines) of
           Inl e \<Rightarrow> Inl e
         | Inr b \<Rightarrow> Inr (if b then Menu else Content))
      else Inr Content)"

section \<open>More string operations\<close>

text \<open>
  Characters are the code points below 256. \<open>str.isspace\<close>, \<open>str.isdigit\<close> and
  \<open>str.lower\<close> are Python's on this range.
\<close>

definition isspace :: "char \<Rightarrow> bool" where
  "isspace c = (let n = (of_char c :: nat) in
      (9 \<le> n \<and> n \<le> 13) \<or> (28 \<le> n \<and> n \<le> 32) \<or> n = 133 \<or> n = 160)"

definition py_strip :: "string \<Rightarrow> string" where
  "py_strip s = rev (dropWhile isspace (rev (dropWhile isspace s)))"

definition ascii_digit :: "char \<Rightarrow> bool" where
  "ascii_digit c = (let n = (of_char c :: nat) in 48 \<le> n \<and> n \<le> 57)"

text \<open>\<open>s.isdigit()\<close>: the ASCII digits and the superscripts two, three and one.\<close>

definition isdigit :: "string \<Rightarrow> bool" where
  "isdigit s = (s \<noteq> [] \<and>
     list_all (\<lambda>c. ascii_digit c \<or> of_char c \<in> {178, 179, 185 :: nat}) s)"

definition lower_char :: "char \<Rightarrow> char" where
  "lower_char c = (let n = (of_char c :: nat) in
      if (65 \<le> n \<and> n \<le> 90) \<or> (192 \<le> n \<and> n \<le> 222 \<and> n \<noteq> 215) then char_of (n + 32) else c)"

definition py_lower :: "string \<Rightarrow> string" where
  "py_lower s = map lower_char s"

text \<open>
  The digits of \<open>int(s)\<close> after the sign: ASCII digits, single underscores allowed
  between them.
\<close>

fun digits_value :: "string \<Rightarrow> nat \<Rightarrow> nat option" where
  "digits_value [] acc = Some acc"
| "digits_value (c # cs) acc =
     (if ascii_digit c then digits_value cs (10 * acc + (of_char c - 48))
      else if c = CHR ''_'' \<and> cs \<noteq> [] \<and> ascii_digit (hd cs) then digits_value cs acc
      else None)"

text \<open>
  The default of \<open>sys.int_max_str_digits\<close> (CPython 3.11 and later): \<open>int\<close> raises
  \<open>ValueError\<close> for a string with more digits.
\<close>

definition int_max_str_digits :: nat where
  "int_max_str_digits = 4300"

text \<open>\<open>int(s)\<close> for a string: surrounding white space, an optional sign, digits.\<close>

definition py_int :: "string \<Rightarrow> exn + int" where
  "py_int s =
     (let t = py_strip s;
          negative = (t \<noteq> [] \<and> hd t = CHR ''-'');
          body = (if t \<noteq> [] \<and> (hd t = CHR ''-'' \<or> hd t = CHR ''+'') then tl t else t)
      in if body \<noteq> [] \<and> ascii_digit (hd body) then
           (case digits_value body 0 of
              None \<Rightarrow> Inl ValueError
            | Some n \<Rightarrow>
                (if int_max_str_digits < length (filter ascii_digit body) then Inl ValueError
                 else Inr (if negative then - int n else int n)))
         else Inl ValueError)"

text \<open>\<open>int(v)\<close> for a value: an integer as it is, a string parsed, \<open>TypeError\<close> otherwise.\<close>

definition int_of :: "pyval \<Rightarrow> exn + pyval" where
  "int_of v =
     (case v of
        PInt i \<Rightarrow> Inr (PInt i)
      | PStr s \<Rightarrow> (case py_int s of Inl e \<Rightarrow> Inl e | Inr i \<Rightarrow> Inr (PInt i))
      | _ \<Rightarrow> Inl TypeError)"

text \<open>\<open>s.split(sep, 1)\<close>: the part before the first separator, and the rest if there is one.\<close>

fun split_once :: "char \<Rightarrow> string \<Rightarrow> string \<times> string option" where
  "split_once sep [] = ([], None)"
| "split_once sep (c # cs) =
     (if c = sep then ([], Some cs)
      else (case split_once sep cs of (w, r) \<Rightarrow> (c # w, r)))"

text \<open>\<open>s.startswith(p)\<close>\<close>

definition startswith :: "string \<Rightarrow> string \<Rightarrow> bool" where
  "startswith s p = (take (length p) s = p)"

section \<open>GopherClient\<close>

datatype sock = NoSocket | Connected | Closed

text \<open>
  The attributes of a client. \<open>logging\<close> holds the logger, here the error records it
  has emitted; \<open>socket\<close> is \<open>None\<close>, a connected socket or a closed one. Host and
  port are arbitrary values, since \<open>load_config\<close> stores whatever the file holds.
\<close>

record GopherClient =
  logging :: "string list"
  host :: pyval
  port :: pyval
  timeout :: int
  debug :: bool
  socket :: sock
  bookmarks :: pyval
  search_engines :: pyval
  history_manager :: ImprovedHistoryManager
  is_navigating_back :: bool

text \<open>
  The attributes that \<open>__init__\<close> assigns. The other methods assign to \<open>host\<close>,
  \<open>port\<close>, \<open>debug\<close> and \<open>socket\<close> only (\<open>go_forward\<close> would assign \<open>history_index\<close>,
  after reading it), so these ten are all the attributes that an instance has when
  a method reads one.
\<close>

definition GopherClient_attrs :: "string list" where
  "GopherClient_attrs =
     [''logging'', ''host'', ''port'', ''timeout'', ''debug'', ''socket'', ''bookmarks'',
      ''search_engines'', ''history_manager'', ''is_navigating_back'']"

text \<open>
  \<open>__init__(self, host='1436.ninja', port=70, timeout=10, debug=False)\<close>, given the
  values that \<open>load_bookmarks\<close> and \<open>load_search_engines\<close> return.
\<close>

definition HISTORY_FILE :: string where
  "HISTORY_FILE = ''navigation_history.json''"

definition CONFIG_FILE :: string where
  "CONFIG_FILE = ''config.json''"

definition GopherClient_init :: "pyval \<Rightarrow> pyval \<Rightarrow> int \<Rightarrow> bool \<Rightarrow> pyval \<Rightarrow> pyval \<Rightarrow> GopherClient" where
  "GopherClient_init h p t d marks engines =
     \<lparr>logging = [], host = h, port = p, timeout = t, debug = d, socket = NoSocket,
      bookmarks = marks, search_engines = engines,
      history_manager = ImprovedHistoryManager_init 5 (Some HISTORY_FILE),
      is_navigating_back = False\<rparr>"

text \<open>\<open>_error_handler\<close>: one error record on the logger.\<close>

definition error_handler :: "string \<Rightarrow> GopherClient \<Rightarrow> GopherClient" where
  "error_handler error_message c = c\<lparr>logging := logging c @ [error_message]\<rparr>"

subsection \<open>Console and network\<close>

text \<open>
  The world outside the client: the lines still to be read from standard input, the
  strings printed so far, one for each call of \<open>print\<close> (the prompts of \<open>input\<close> are
  not recorded), and a clock that counts the network operations, so that the network
  may answer each of them differently.
\<close>

record world =
  stdin :: "string list"
  stdout :: "string list"
  clock :: nat

type_synonym state = "GopherClient \<times> world"

definition py_print :: "string \<Rightarrow> world \<Rightarrow> world" where
  "py_print line w = w\<lparr>stdout := stdout w @ [line]\<rparr>"

definition tick :: "world \<Rightarrow> world" where
  "tick w = w\<lparr>clock := Suc (clock w)\<rparr>"

text \<open>
  The environment: \<open>socket.create_connection\<close> to a host and port at a time raises
  or succeeds; sending the request line and reading the response until the peer
  closes raises or gives the decoded text; \<open>urlparse\<close> of a string raises or gives
  \<open>path\<close>, \<open>hostname\<close> and \<open>port\<close>. These library functions are parameters.
\<close>

record env =
  create_connection :: "nat \<Rightarrow> pyval \<Rightarrow> pyval \<Rightarrow> exn option"
  exchange :: "nat \<Rightarrow> pyval \<Rightarrow> pyval \<Rightarrow> string \<Rightarrow> exn + string"
  urlparse_str :: "string \<Rightarrow> exn + (string \<times> pyval \<times> pyval)"

text \<open>\<open>_is_connected\<close>: \<open>getsockopt\<close> raises on \<open>None\<close> and on a closed socket.\<close>

definition is_connected :: "GopherClient \<Rightarrow> bool" where
  "is_connected c = (socket c = Connected)"

text \<open>
  \<open>_establish_connection(self, server=None, port=None)\<close>: closes the socket it has,
  connects, and catches \<open>socket.error\<close> only.
\<close>

definition establish_connection :: "env \<Rightarrow> pyval \<Rightarrow> pyval \<Rightarrow> state \<Rightarrow> state \<times> unit result" where
  "establish_connection E server prt s =
     (let c = fst s; w = snd s;
          c1 = (if socket c \<noteq> NoSocket then c\<lparr>socket := Closed\<rparr> else c)
      in case create_connection E (clock w) (py_or server (host c1)) (py_or prt (port c1)) of
           None \<Rightarrow> ((c1\<lparr>socket := Connected\<rparr>, tick w), Value ())
         | Some e \<Rightarrow>
             (if is_socket_error e
              then ((error_handler ''Error establishing connection'' c1, tick w), Value ())
              else ((c1, tick w), Raised e)))"

text \<open>\<open>connect(self, host=None, port=None)\<close>\<close>

definition connect :: "env \<Rightarrow> pyval \<Rightarrow> pyval \<Rightarrow> state \<Rightarrow> state \<times> unit result" where
  "connect E h p s =
     (let c = fst s;
          c1 = (if truthy h then c\<lparr>host := h\<rparr> else c);
          c2 = (if truthy p then c1\<lparr>port := p\<rparr> else c1)
      in establish_connection E PNone PNone (c2, snd s))"

definition ensure_connection :: "env \<Rightarrow> state \<Rightarrow> state \<times> unit result" where
  "ensure_connection E s =
     (if \<not> is_connected (fst s) then connect E (host (fst s)) (port (fst s)) s
      else (s, Value ()))"

text \<open>
  \<open>_send_request(self, selector, server=None, port=None)\<close>: the response text, or
  \<open>None\<close> after an exception that \<open>except (socket.error, Exception)\<close> catches
  and hands to \<open>_error_handler\<close> (\<open>caught\<close>). When
  \<open>_establish_connection\<close> has caught a socket error, \<open>sendall\<close> raises on the
  socket that is left: \<open>AttributeError\<close> on \<open>None\<close>, \<open>OSError\<close> on a closed socket.
\<close>

definition caught :: "exn \<Rightarrow> state \<Rightarrow> state \<times> string option result" where
  "caught e s =
     (if is_Exception e then ((error_handler ''Error'' (fst s), snd s), Value None)
      else (s, Raised e))"

definition send_request ::
  "env \<Rightarrow> string \<Rightarrow> pyval \<Rightarrow> pyval \<Rightarrow> state \<Rightarrow> state \<times> string option result" where
  "send_request E selector server prt s =
     (let server1 = (if \<not> truthy server then host (fst s) else server);
          port1 = (if \<not> truthy prt then port (fst s) else prt)
      in case establish_connection E server1 port1 s of
           (s1, Value _) \<Rightarrow>
             (case socket (fst s1) of
                Connected \<Rightarrow>
                  (case exchange E (clock (snd s1)) server1 port1 selector of
                     Inr response \<Rightarrow>
                       (((fst s1)\<lparr>socket := Closed\<rparr>, tick (snd s1)), Value (Some response))
                   | Inl e \<Rightarrow> caught e (fst s1, tick (snd s1)))
              | NoSocket \<Rightarrow> caught AttributeError s1
              | Closed \<Rightarrow> caught OSError s1)
         | (s1, Raised e) \<Rightarrow> caught e s1
         | (s1, OutOfFuel) \<Rightarrow> (s1, OutOfFuel))"

subsection \<open>Going back\<close>

definition beginning_of_history :: string where
  "beginning_of_history = ''You'' @ [CHR 0x27] @ ''re at the beginning of your navigation history.''"

definition invalid_choice :: string where
  "invalid_choice = ''Invalid choice. Please try again.''"

definition press_b_or_q :: string where
  "press_b_or_q =
     [NL] @ ''Press '' @ [CHR 0x27] @ ''b'' @ [CHR 0x27] @ '' to go back or ''
     @ [CHR 0x27] @ ''q'' @ [CHR 0x27] @ '' to quit:''"

text \<open>
  \<open>_split_address(self, address)\<close>. \<open>address.startswith\<close> exists on strings only.
\<close>

definition split_address :: "pyval \<Rightarrow> exn + (string \<times> string \<times> string)" where
  "split_address address =
     (case address of
        PStr a \<Rightarrow>
          (let a1 = (if startswith a ''gopher://'' then drop (length ''gopher://'') a else a);
               parts = split_once CHR ''/'' a1;
               server_port = fst parts;
               selector = (case snd parts of Some rest \<Rightarrow> rest | None \<Rightarrow> [])
           in if CHR '':'' \<in> set server_port then
                (case split_once CHR '':'' server_port of
                   (server, p) \<Rightarrow> Inr (server, (case p of Some q \<Rightarrow> q | None \<Rightarrow> []), selector))
              else Inr (server_port, ''70'', selector))
      | _ \<Rightarrow> Inl AttributeError)"

text \<open>
  The type of \<open>navigate\<close> without its fuel and environment: selector,
  \<open>record_history\<close>, server, port.
\<close>

type_synonym navigation = "string \<Rightarrow> bool \<Rightarrow> pyval \<Rightarrow> pyval \<Rightarrow> state \<Rightarrow> state \<times> unit result"

text \<open>\<open>_go_back(self)\<close>, calling \<open>nav\<close> for \<open>self.navigate\<close>.\<close>

definition go_back_client :: "navigation \<Rightarrow> state \<Rightarrow> state \<times> unit result" where
  "go_back_client nav s =
     (let c = fst s; w = py_print ''Attempting to go back...'' (snd s)
      in if backward_history (history_manager c) = []
         then ((c, py_print beginning_of_history w), Value ())
         else
           (case go_back (history_manager c) of
              (h, r) \<Rightarrow>
                (let c1 = c\<lparr>history_manager := h\<rparr>
                 in case r of
                      Inl e \<Rightarrow> ((c1, w), Raised e)
                    | Inr prev_page \<Rightarrow>
                        (if \<not> truthy prev_page
                         then ((c1, py_print beginning_of_history w), Value ())
                         else
                           (case split_address prev_page of
                              Inl e \<Rightarrow> ((c1, w), Raised e)
                            | Inr (server, p, selector) \<Rightarrow>
                                nav selector False (PStr server) (PStr p) (c1, w))))))"

text \<open>
  \<open>urlparse(previous_page)\<close>: for a string the library function of the environment;
  any other true value has no \<open>decode\<close>, which \<open>urlparse\<close> calls on it.
\<close>

definition urlparse :: "env \<Rightarrow> pyval \<Rightarrow> exn + (string \<times> pyval \<times> pyval)" where
  "urlparse E url = (case url of PStr u \<Rightarrow> urlparse_str E u | _ \<Rightarrow> Inl AttributeError)"

text \<open>
  The loop of \<open>_handle_user_choice\<close> over the lines of standard input; \<open>input\<close> raises
  \<open>EOFError\<close> when there is none. The only value it returns is \<open>"BACK"\<close>.
\<close>

fun handle_choice_loop ::
  "env \<Rightarrow> navigation \<Rightarrow> string list \<Rightarrow> GopherClient \<Rightarrow> world \<Rightarrow> state \<times> string result" where
  "handle_choice_loop E nav [] c w = ((c, w\<lparr>stdin := []\<rparr>), Raised EOFError)"
| "handle_choice_loop E nav (line # rest) c w =
     (let w1 = w\<lparr>stdin := rest\<rparr>; choice = py_lower (py_strip line)
      in if choice = ''b'' then
           (case go_back (history_manager c) of
              (h, r) \<Rightarrow>
                (let c1 = c\<lparr>history_manager := h\<rparr>
                 in case r of
                      Inl e \<Rightarrow> ((c1, w1), Raised e)
                    | Inr previous_page \<Rightarrow>
                        (if truthy previous_page then
                           (case urlparse E previous_page of
                              Inl e \<Rightarrow> ((c1, w1), Raised e)
                            | Inr (path, hostname, p) \<Rightarrow>
                                (case nav path False hostname p (c1, w1) of
                                   (s2, Value _) \<Rightarrow> (s2, Value ''BACK'')
                                 | (s2, Raised e) \<Rightarrow> (s2, Raised e)
                                 | (s2, OutOfFuel) \<Rightarrow> (s2, OutOfFuel)))
                         else handle_choice_loop E nav rest c1 (py_print beginning_of_history w1))))
         else if choice = ''q'' then ((c, w1), Raised SystemExit)
         else handle_choice_loop E nav rest c (py_print invalid_choice w1))"

definition handle_user_choice :: "env \<Rightarrow> navigation \<Rightarrow> string \<Rightarrow> state \<Rightarrow> state \<times> string result" where
  "handle_user_choice E nav data s =
     handle_choice_loop E nav (stdin (snd s)) (fst s) (py_print data (snd s))"

subsection \<open>Menus\<close>

text \<open>
  The loop of \<open>_get_user_choice\<close>: the chosen entry, or \<open>None\<close> for the triple
  \<open>(None, None, None)\<close> that follows \<open>_go_back\<close>. \<open>int(choice)\<close> is evaluated only when
  \<open>choice.isdigit()\<close> holds. \<open>quit_client\<close> closes the socket and exits.
\<close>

fun get_choice_loop ::
  "navigation \<Rightarrow> entry list \<Rightarrow> string list \<Rightarrow> GopherClient \<Rightarrow> world \<Rightarrow> state \<times> entry option result" where
  "get_choice_loop nav entries [] c w = ((c, w\<lparr>stdin := []\<rparr>), Raised EOFError)"
| "get_choice_loop nav entries (choice # rest) c w =
     (let w1 = w\<lparr>stdin := rest\<rparr>
      in case (if isdigit choice then py_int choice else Inr (- 1)) of
           Inl e \<Rightarrow> ((c, w1), Raised e)
         | Inr i \<Rightarrow>
             (if isdigit choice \<and> 0 \<le> i \<and> i < int (length entries)
              then ((c, w1), Value (Some (entries ! nat i)))
              else if choice = ''b'' then
                (case go_back_client nav (c, w1) of
                   (s2, Value _) \<Rightarrow> (s2, Value None)
                 | (s2, Raised e) \<Rightarrow> (s2, Raised e)
                 | (s2, OutOfFuel) \<Rightarrow> (s2, OutOfFuel))
              else if choice = ''q'' then
                ((if socket c \<noteq> NoSocket then c\<lparr>socket := Closed\<rparr> else c, w1), Raised SystemExit)
              else get_choice_loop nav entries rest c (py_print invalid_choice w1)))"

definition get_user_choice :: "navigation \<Rightarrow> entry list \<Rightarrow> state \<Rightarrow> state \<times> entry option result" where
  "get_user_choice nav entries s = get_choice_loop nav entries (stdin (snd s)) (fst s) (snd s)"

text \<open>\<open>_print_gopher_menu\<close>: one line per entry, then the two fixed lines.\<close>

fun show_nat :: "nat \<Rightarrow> string" where
  "show_nat n =
     (if n < 10 then [char_of (48 + n)] else show_nat (n div 10) @ [char_of (48 + n mod 10)])"

declare show_nat.simps [simp del]

definition menu_line :: "nat \<times> entry \<Rightarrow> string" where
  "menu_line ie =
     (case ie of (index, entry_type, display_string, _) \<Rightarrow>
        show_nat index @ ''. ''
        @ (if entry_type = ''1'' then ''[LINK]'' else if entry_type = ''0'' then ''[TEXT]'' else [])
        @ '' '' @ display_string)"

definition print_gopher_menu :: "entry list \<Rightarrow> world \<Rightarrow> world" where
  "print_gopher_menu entries w =
     w\<lparr>stdout := stdout w @ map menu_line (enumerate 0 entries) @ [''q. Quit'', ''b. Go back'']\<rparr>"

text \<open>
  \<open>_display_gopher_menu(self, data)\<close>: the selector, server and port of the chosen
  entry, the port converted with \<open>int(port.strip())\<close> unless it is empty, or \<open>None\<close>
  for \<open>(None, None, None)\<close>.
\<close>

definition display_gopher_menu ::
  "navigation \<Rightarrow> string \<Rightarrow> state \<Rightarrow> state \<times> (string \<times> pyval \<times> pyval) option result" where
  "display_gopher_menu nav data s =
     (let lines = py_split NL data
      in case exceeds_threshold (menu_line_count lines) (length lines) of
           Inl e \<Rightarrow> (s, Raised e)
         | Inr True \<Rightarrow>
             (case parse_gopher_menu data of
                Inl e \<Rightarrow> (s, Raised e)
              | Inr entries \<Rightarrow>
                  (case get_user_choice nav entries (fst s, print_gopher_menu entries (snd s)) of
                     (s1, Value (Some (_, _, selector, server, p))) \<Rightarrow>
                       (if p \<noteq> [] then
                          (case py_int (py_strip p) of
                             Inl e \<Rightarrow> (s1, Raised e)
                           | Inr n \<Rightarrow> (s1, Value (Some (selector, PStr server, PInt n))))
                        else (s1, Value (Some (selector, PStr server, PStr p))))
                   | (s1, Value None) \<Rightarrow> (s1, Value None)
                   | (s1, Raised e) \<Rightarrow> (s1, Raised e)
                   | (s1, OutOfFuel) \<Rightarrow> (s1, OutOfFuel)))
         | Inr False \<Rightarrow>
             ((fst s, py_print press_b_or_q (py_print data (snd s))), Value None))"

subsection \<open>navigate\<close>

text \<open>
  \<open>except Exception as e: self._error_handler(...)\<close> around the body of \<open>navigate\<close>.
\<close>

definition catch_Exception :: "state \<times> unit result \<Rightarrow> state \<times> unit result" where
  "catch_Exception r =
     (case r of
        (s, Raised e) \<Rightarrow>
          (if is_Exception e then ((error_handler ''Error while navigating'' (fst s), snd s), Value ())
           else (s, Raised e))
      | _ \<Rightarrow> r)"

text \<open>
  What follows \<open>_handle_user_choice\<close> in \<open>navigate\<close>: return on \<open>"BACK"\<close>, otherwise
  fall through to the recording of \<open>(server, port)\<close>.
\<close>

definition after_choice ::
  "bool \<Rightarrow> pyval \<Rightarrow> pyval \<Rightarrow> state \<times> string result \<Rightarrow> state \<times> unit result" where
  "after_choice record_history server prt r =
     (case r of
        (s, Value action) \<Rightarrow>
          (if action = ''BACK'' then (s, Value ())
           else if record_history then
             (((fst s)\<lparr>history_manager :=
                  record_address (history_manager (fst s)) (PTuple [server, prt])\<rparr>, snd s),
              Value ())
           else (s, Value ()))
      | (s, Raised e) \<Rightarrow> (s, Raised e)
      | (s, OutOfFuel) \<Rightarrow> (s, OutOfFuel))"

text \<open>
  \<open>navigate(self, selector, record_history=True, server=None, port=70)\<close>, with the
  depth of the nested calls bounded by the first argument. \<open>_ensure_connection\<close> is
  called before the \<open>try\<close>.
\<close>

primrec navigate :: "nat \<Rightarrow> env \<Rightarrow> navigation" where
  "navigate 0 E = (\<lambda>selector record_history server prt s. (s, OutOfFuel))"
| "navigate (Suc fuel) E = (\<lambda>selector record_history server prt s.
     case ensure_connection E s of
       (s1, Value _) \<Rightarrow>
         catch_Exception
           (case send_request E selector server prt s1 of
              (s2, Value None) \<Rightarrow> (s2, Value ())
            | (s2, Raised e) \<Rightarrow> (s2, Raised e)
            | (s2, OutOfFuel) \<Rightarrow> (s2, OutOfFuel)
            | (s2, Value (Some data)) \<Rightarrow>
                (if data = [] then (s2, Value ())
                 else if TAB \<in> set data then
                   (case display_gopher_menu (navigate fuel E) data s2 of
                      (s3, Value (Some (selected_selector, new_server, new_port))) \<Rightarrow>
                        (case (if truthy new_port then int_of new_port else Inr (port (fst s3))) of
                           Inl e \<Rightarrow> (s3, Raised e)
                         | Inr navigate_port \<Rightarrow>
                             navigate fuel E selected_selector False
                               (py_or new_server (host (fst s3))) navigate_port s3)
                    | (s3, Value None) \<Rightarrow>
                        after_choice record_history server prt
                          (handle_user_choice E (navigate fuel E) data s3)
                    | (s3, Raised e) \<Rightarrow> (s3, Raised e)
                    | (s3, OutOfFuel) \<Rightarrow> (s3, OutOfFuel))
                 else after_choice record_history server prt
                        (handle_user_choice E (navigate fuel E) data s2)))
     | (s1, Raised e) \<Rightarrow> (s1, Raised e)
     | (s1, OutOfFuel) \<Rightarrow> (s1, OutOfFuel))"

text \<open>
  \<open>go_forward(self)\<close>. Its first step reads \<open>self.history_index\<close>, then
  \<open>self.history\<close>; \<open>rest\<close> stands for what follows the two reads (the comparison, the
  increment and the call of \<open>navigate\<close>, or the message).
\<close>

definition go_forward :: "(state \<Rightarrow> state \<times> unit result) \<Rightarrow> state \<Rightarrow> state \<times> unit result" where
  "go_forward rest s =
     (case getattr GopherClient_attrs ''history_index'' of
        Inl e \<Rightarrow> (s, Raised e)
      | Inr _ \<Rightarrow>
          (case getattr GopherClient_attrs ''history'' of
             Inl e \<Rightarrow> (s, Raised e)
           | Inr _ \<Rightarrow> rest s))"

section \<open>Files\<close>

text \<open>
  A file holds the JSON text of a value, or something that \<open>json.load\<close> rejects (an
  empty or truncated file). \<open>json.dump\<close> writes tuples as lists, so \<open>json.load\<close> gives
  \<open>to_json v\<close> for a file written from \<open>v\<close>.
\<close>

datatype content = Doc pyval | Undecodable

type_synonym files = "string \<Rightarrow> content option"

fun to_json :: "pyval \<Rightarrow> pyval" where
  "to_json (PTuple xs) = PList (map to_json xs)"
| "to_json (PList xs) = PList (map to_json xs)"
| "to_json (PDict kvs) = PDict (map (map_prod id to_json) kvs)"
| "to_json v = v"

text \<open>
  An input or output step succeeds, or raises \<open>OSError\<close> and leaves something behind:
  for a copy or a write, what the destination holds afterwards.
\<close>

datatype 'a io = Done | Fails 'a

text \<open>The four steps of \<open>_save_to_file\<close>, as the operating system decides them.\<close>

record faults =
  backup_copy :: "content option io"
  write_file :: "content option io"
  restore_copy :: "content option io"
  remove_backup :: "unit io"

definition backup_name :: "string \<Rightarrow> string" where
  "backup_name filename = filename @ ''.bak''"

text \<open>
  The second half of \<open>_save_to_file\<close>: the write, and after a failed write the
  restoration. \<open>shutil\<close> is a local name that is bound only when the backup was
  made; otherwise \<open>shutil.copy2\<close> raises \<open>UnboundLocalError\<close>, which the
  \<open>except Exception\<close> around the restoration logs.
\<close>

definition write_phase ::
  "faults \<Rightarrow> string \<Rightarrow> pyval \<Rightarrow> bool \<Rightarrow> files \<times> GopherClient \<Rightarrow> files \<times> GopherClient" where
  "write_phase F filename data shutil_bound s =
     (let fs = fst s; c = snd s; backup = backup_name filename
      in case write_file F of
           Done \<Rightarrow>
             (let fs1 = fs(filename \<mapsto> Doc (to_json data))
              in if fs1 backup \<noteq> None then
                   (case remove_backup F of
                      Done \<Rightarrow> (fs1(backup := None), c)
                    | Fails _ \<Rightarrow> (fs1, error_handler ''Error while removing backup'' c))
                 else (fs1, c))
         | Fails left \<Rightarrow>
             (let fs1 = fs(filename := left);
                  c1 = error_handler ''Error while saving data'' c
              in if fs1 backup \<noteq> None then
                   (if shutil_bound then
                      (case restore_copy F of
                         Done \<Rightarrow> (fs1(filename := fs1 backup), c1)
                       | Fails left1 \<Rightarrow>
                           (fs1(filename := left1),
                            error_handler ''Error while restoring from backup'' c1))
                    else (fs1, error_handler ''Error while restoring from backup'' c1))
                 else (fs1, c1)))"

text \<open>
  The first half: the backup of an existing file. A failed backup ends the call;
  the result is \<open>None\<close> then, with the files and the client as they are left.
\<close>

definition backup_phase ::
  "faults \<Rightarrow> string \<Rightarrow> files \<times> GopherClient \<Rightarrow> (files \<times> GopherClient) + (bool \<times> files \<times> GopherClient)" where
  "backup_phase F filename s =
     (let fs = fst s; c = snd s; backup = backup_name filename
      in if fs filename \<noteq> None then
           (case backup_copy F of
              Done \<Rightarrow> Inr (True, fs(backup := fs filename), c)
            | Fails left \<Rightarrow> Inl (fs(backup := left), error_handler ''Error while creating a backup'' c))
         else Inr (False, fs, c))"

text \<open>\<open>_save_to_file(self, filename, data)\<close>\<close>

definition save_to_file ::
  "faults \<Rightarrow> string \<Rightarrow> pyval \<Rightarrow> files \<times> GopherClient \<Rightarrow> files \<times> GopherClient" where
  "save_to_file F filename data s =
     (case backup_phase F filename s of
        Inl aborted \<Rightarrow> aborted
      | Inr (shutil_bound, s1) \<Rightarrow> write_phase F filename data shutil_bound s1)"

text \<open>
  \<open>_load_from_file(self, filename, default_value=[])\<close>: the default for a missing
  file and, with an error record, for a file that cannot be read or decoded.
\<close>

definition load_from_file ::
  "bool \<Rightarrow> string \<Rightarrow> pyval \<Rightarrow> files \<times> GopherClient \<Rightarrow> pyval \<times> GopherClient" where
  "load_from_file read_fails filename default_value s =
     (case fst s filename of
        None \<Rightarrow> (default_value, snd s)
      | Some held \<Rightarrow>
          (if read_fails
           then (default_value, error_handler ''Error opening or reading'' (snd s))
           else (case held of
                   Doc v \<Rightarrow> (v, snd s)
                 | Undecodable \<Rightarrow> (default_value, error_handler ''Error decoding JSON'' (snd s)))))"

text \<open>\<open>d.get(key, default)\<close>\<close>

definition dict_get :: "(string \<times> pyval) list \<Rightarrow> string \<Rightarrow> pyval \<Rightarrow> pyval" where
  "dict_get d key default_value = (case map_of d key of Some v \<Rightarrow> v | None \<Rightarrow> default_value)"

text \<open>\<open>save_config(self)\<close>\<close>

definition save_config :: "faults \<Rightarrow> files \<times> state \<Rightarrow> files \<times> state" where
  "save_config F x =
     (let fs = fst x; c = fst (snd x); w = snd (snd x);
          config = PDict [(''hostname'', host c), (''port'', port c),
                          (''backward_history'', PList (backward_history (history_manager c))),
                          (''forward_history'', PList (forward_history (history_manager c)))]
      in case save_to_file F CONFIG_FILE config (fs, c) of
           (fs1, c1) \<Rightarrow> (fs1, c1, py_print ''Configuration saved to config.json.'' w))"

text \<open>
  \<open>load_config(self)\<close>. \<open>config.get\<close> exists on a dictionary only. The two lists of
  the history manager are assigned whatever the keys \<open>backward\<close> and \<open>forward\<close> hold;
  a stored value that is not a list is outside what the record of the history
  manager can hold, and the outcome is \<open>Not_a_list\<close> then.
\<close>

datatype loaded = Loaded GopherClient | Load_raised exn GopherClient | Not_a_list

definition load_config :: "bool \<Rightarrow> files \<times> GopherClient \<Rightarrow> loaded" where
  "load_config read_fails s =
     (case load_from_file read_fails CONFIG_FILE (PList []) s of
        (PDict config, c) \<Rightarrow>
          (let c1 = c\<lparr>host := dict_get config ''hostname'' (host c)\<rparr>;
               c2 = c1\<lparr>port := dict_get config ''port'' (port c1)\<rparr>;
               h = history_manager c2
           in case dict_get config ''backward'' (PList (backward_history h)) of
                PList backward \<Rightarrow>
                  (case dict_get config ''forward'' (PList (forward_history h)) of
                     PList forward \<Rightarrow>
                       Loaded (c2\<lparr>history_manager :=
                                    h\<lparr>backward_history := backward, forward_history := forward\<rparr>\<rparr>)
                   | _ \<Rightarrow> Not_a_list)
              | _ \<Rightarrow> Not_a_list)
      | (_, c) \<Rightarrow> Load_raised AttributeError c)"

text \<open>
  \<open>_save_history(self)\<close> of the history manager: a plain write of the two lists under
  the keys \<open>backward\<close> and \<open>forward\<close> to the history file, if one is set.
\<close>

definition save_history ::
  "content option io \<Rightarrow> ImprovedHistoryManager \<Rightarrow> files \<Rightarrow> files \<times> unit result" where
  "save_history written h fs =
     (case history_file h of
        None \<Rightarrow> (fs, Value ())
      | Some f \<Rightarrow>
          (if f = [] then (fs, Value ())
           else (case written of
                   Done \<Rightarrow>
                     (fs(f \<mapsto> Doc (to_json (PDict [(''backward'', PList (backward_history h)),
                                                    (''forward'', PList (forward_history h))]))),
                      Value ())
                 | Fails left \<Rightarrow> (fs(f := left), Raised OSError))))"

section \<open>Properties of the history manager\<close>

lemma history_manager_has_no_logging:
  "getattr ImprovedHistoryManager_attrs ''logging'' = Inl AttributeError"
  by (simp add: getattr_def ImprovedHistoryManager_attrs_def)

lemma go_back_empty: "backward_history h = [] \<Longrightarrow> go_back h = (h, Inr PNone)"
  by (simp add: go_back_def)

lemma go_back_nonempty:
  "backward_history h \<noteq> [] \<Longrightarrow>
   go_back h =
     (h\<lparr>backward_history := butlast (backward_history h),
        forward_history := forward_history h @ [last (backward_history h)]\<rparr>,
      Inl AttributeError)"
  by (simp add: go_back_def Let_def history_manager_has_no_logging)

text \<open>
  C3. \<open>go_back\<close> on a history holding the two addresses \<open>(a.example, 70)\<close> and
  \<open>(b.example, 70)\<close> pops the top and appends it to the forward list, and then
  raises \<open>AttributeError\<close> instead of returning the new top \<open>(a.example, 70)\<close>.
\<close>

theorem go_back_raises_after_pop:
  "go_back \<lparr>backward_history = [PTuple [PStr ''a.example'', PInt 70],
                                 PTuple [PStr ''b.example'', PInt 70]],
            forward_history = [], max_history = 5, history_file = None\<rparr>
   = (\<lparr>backward_history = [PTuple [PStr ''a.example'', PInt 70]],
       forward_history = [PTuple [PStr ''b.example'', PInt 70]],
       max_history = 5, history_file = None\<rparr>,
      Inl AttributeError)"
  by (simp add: go_back_def Let_def getattr_def ImprovedHistoryManager_attrs_def)

lemma record_address_length:
  "length (backward_history (record_address h a)) = Suc (length (backward_history h))"
  by (simp add: record_address_def)

lemma foldl_record_address_length:
  "length (backward_history (foldl record_address h as)) = length (backward_history h) + length as"
  by (induction as arbitrary: h) (simp_all add: record_address_length)

text \<open>
  The sibling operation \<open>add_page\<close> keeps the bound and skips a repeated top.
\<close>

lemma add_page_bounded:
  assumes "int (length (backward_history h)) \<le> max_history h" and "add_page h p = Inr h'"
  shows "int (length (backward_history h')) \<le> max_history h'"
  using assms by (auto simp: add_page_def split: if_splits list.splits)

lemma add_page_evicts_oldest:
  assumes "int (length (backward_history h)) = max_history h"
    and "backward_history h = old # rest" and "last (old # rest) \<noteq> p"
  shows "add_page h p = Inr (h\<lparr>backward_history := rest @ [p], forward_history := []\<rparr>)"
  using assms by (simp add: add_page_def)

lemma add_page_same_top:
  "backward_history h \<noteq> [] \<Longrightarrow> last (backward_history h) = p \<Longrightarrow> add_page h p = Inr h"
  by (simp add: add_page_def)

text \<open>
  C4. Six recorded navigations on a fresh history manager (maximum 5) leave six
  entries in the backward list: \<open>record\<close>, the operation \<open>navigate\<close> calls, neither
  compares the length with \<open>max_history\<close> nor evicts.
\<close>

theorem record_exceeds_max_history:
  "backward_history (foldl record_address (ImprovedHistoryManager_init 5 None)
      [PTuple [PStr ''h1'', PInt 70], PTuple [PStr ''h2'', PInt 70],
       PTuple [PStr ''h3'', PInt 70], PTuple [PStr ''h4'', PInt 70],
       PTuple [PStr ''h5'', PInt 70], PTuple [PStr ''h6'', PInt 70]])
   = [PTuple [PStr ''h1'', PInt 70], PTuple [PStr ''h2'', PInt 70],
      PTuple [PStr ''h3'', PInt 70], PTuple [PStr ''h4'', PInt 70],
      PTuple [PStr ''h5'', PInt 70], PTuple [PStr ''h6'', PInt 70]]"
  by (simp add: record_address_def ImprovedHistoryManager_init_def)

text \<open>
  C5. Recording the address that is already the top of the backward list appends
  it a second time.
\<close>

theorem record_repeats_top:
  "backward_history (record_address
      \<lparr>backward_history = [PTuple [PStr ''h1'', PInt 70]], forward_history = [],
       max_history = 5, history_file = None\<rparr>
      (PTuple [PStr ''h1'', PInt 70]))
   = [PTuple [PStr ''h1'', PInt 70], PTuple [PStr ''h1'', PInt 70]]"
  by (simp add: record_address_def)

section \<open>Properties of the menu parser\<close>

lemma py_split_nonempty: "py_split sep s \<noteq> []"
  by (induction s) (auto split: list.splits)

lemma length_py_split: "length (py_split sep s) = Suc (count_list s sep)"
  by (induction s) (auto split: list.splits simp: py_split_nonempty)


lemma py_split_piece:
  "sep \<notin> set w \<Longrightarrow> py_split sep (w @ sep # rest) = w # py_split sep rest"
  by (induction w) (auto split: list.splits)

lemma py_split_no_sep: "sep \<notin> set w \<Longrightarrow> py_split sep w = [w]"
  by (induction w) (auto split: list.splits)

text \<open>
  What the parser does with one line: nothing for fewer than four fields, one entry
  for four or more fields with a non-empty first field.
\<close>

lemma parse_line_short:
  "length (py_split TAB line) < 4 \<Longrightarrow> parse_lines [line] entries = Inr entries"
  by (simp add: Let_def)

lemma parse_line_entry:
  assumes "4 \<le> length (py_split TAB line)"
    and "py_split TAB line ! 0 = entry_type # display_string"
  shows "parse_lines [line] entries =
         Inr (entries @ [([entry_type], display_string, py_split TAB line ! 1,
                           py_split TAB line ! 2, py_split TAB line ! 3)])"
  using assms by (simp add: Let_def)

lemma parse_line_empty_first_field:
  assumes "4 \<le> length (py_split TAB line)" and "py_split TAB line ! 0 = []"
  shows "parse_lines (line # lines) entries = Inl IndexError"
  using assms by (simp add: Let_def)

text \<open>
  C7. The line \<open>\t/docs\texample.org\t70\<close> has four tab-separated fields, the first
  of them empty. The parser raises \<open>IndexError\<close> at \<open>parts[0][0]\<close> instead of
  producing an entry.
\<close>

theorem parse_gopher_menu_empty_first_field:
  "parse_gopher_menu ([TAB] @ ''/docs'' @ [TAB] @ ''example.org'' @ [TAB] @ ''70'')
   = Inl IndexError"
  by (simp add: parse_gopher_menu_def Let_def)

section \<open>Properties of the response classifier\<close>

lemma bitlen_Suc_0: "bitlen (Suc 0) = 1"
  by (simp add: bitlen.simps)

lemma bitlen_One: "bitlen (numeral Num.One) = 1"
  by (simp add: bitlen.simps)

lemma bitlen_Bit0: "bitlen (numeral (Num.Bit0 k)) = bitlen (numeral k) + 1"
  by (subst bitlen.simps) simp

lemma bitlen_Bit1: "bitlen (numeral (Num.Bit1 k)) = bitlen (numeral k) + 1"
  by (subst bitlen.simps) simp








lemma py_split_pieces:
  "sep \<notin> set w \<Longrightarrow>
   py_split sep (concat (replicate k (w @ [sep])) @ rest) = replicate k w @ py_split sep rest"
  by (induction k) (simp_all add: py_split_piece)

lemma py_split_seps: "py_split sep (replicate m sep) = replicate (Suc m) []"
  by (induction m) simp_all

lemma tabbed_then_blank_lines:
  "py_split NL (concat (replicate k [TAB, TAB, TAB, NL]) @ replicate m NL)
   = replicate k [TAB, TAB, TAB] @ replicate (Suc m) []"
  using py_split_pieces [of NL "[TAB, TAB, TAB]" k "replicate m NL"]
  by (simp add: py_split_seps)

lemma tabbed_then_blank_count:
  "menu_line_count (replicate k [TAB, TAB, TAB] @ replicate (Suc m) []) = k"
  by (simp add: menu_line_count_def)

lemma threshold_at_large:
  "exceeds_threshold 1351079888211149 6755399441055744 = Inr False"
  by (simp add: exceeds_threshold_def float_of_nat_def round_to_double_def float_mul_def
      twenty_percent_def int_gt_float_def Let_def
      bitlen_Suc_0 bitlen_One bitlen_Bit0 bitlen_Bit1)

text \<open>
  Where the double arithmetic departs from the exact comparison: for
  6755399441055744 lines, 1351079888211149 of which are \<open>\t\t\t\<close> and the others
  empty, the product \<open>6755399441055744 * 0.20\<close> is rounded up to
  \<open>1351079888211149.0\<close>, which the count does not exceed. No text of that size
  fits in memory.
\<close>

lemma classify_beyond_bound:
  "classify (concat (replicate 1351079888211149 [TAB, TAB, TAB, NL])
             @ replicate 5404319552844594 NL)
     = Inr Content
   \<and> length (py_split NL (concat (replicate 1351079888211149 [TAB, TAB, TAB, NL])
                            @ replicate 5404319552844594 NL))
     < 5 * menu_line_count (py_split NL
           (concat (replicate 1351079888211149 [TAB, TAB, TAB, NL])
            @ replicate 5404319552844594 NL))"
proof -
  define k :: nat where "k = 1351079888211149"
  define m :: nat where "m = 5404319552844594"
  define d where "d = concat (replicate k [TAB, TAB, TAB, NL]) @ replicate m NL"
  have lines: "py_split NL d = replicate k [TAB, TAB, TAB] @ replicate (Suc m) []"
    unfolding d_def by (rule tabbed_then_blank_lines)
  have len: "length (py_split NL d) = 6755399441055744"
    by (simp add: lines k_def m_def)
  have cnt: "menu_line_count (py_split NL d) = 1351079888211149"
    by (simp only: lines tabbed_then_blank_count k_def)
  have "0 < k" by (simp add: k_def)
  then have tab: "TAB \<in> set d" by (cases k) (simp_all add: d_def)
  have "classify d = Inr Content"
    by (simp add: classify_def tab Let_def len cnt threshold_at_large)
  moreover have "length (py_split NL d) < 5 * menu_line_count (py_split NL d)"
    by (simp add: len cnt)
  ultimately show ?thesis by (simp only: d_def k_def m_def)
qed

section \<open>Properties of going back\<close>

text \<open>
  With an empty backward list both ways of going back tell the user so, and
  \<open>navigate\<close> is not called.
\<close>

lemma go_back_client_empty:
  "backward_history (history_manager c) = [] \<Longrightarrow>
   go_back_client nav (c, w) =
     ((c, py_print beginning_of_history (py_print ''Attempting to go back...'' w)), Value ())"
  by (simp add: go_back_client_def Let_def)

lemma go_back_client_nonempty:
  "backward_history (history_manager c) \<noteq> [] \<Longrightarrow>
   go_back_client nav (c, w) =
     ((c\<lparr>history_manager := fst (go_back (history_manager c))\<rparr>,
       py_print ''Attempting to go back...'' w), Raised AttributeError)"
  by (simp add: go_back_client_def Let_def go_back_nonempty)

lemma split_address_tuple: "split_address (PTuple xs) = Inl AttributeError"
  by (simp add: split_address_def)

lemma urlparse_tuple: "urlparse E (PTuple xs) = Inl AttributeError"
  by (simp add: urlparse_def)

lemma handle_choice_back_empty:
  "py_lower (py_strip line) = ''b'' \<Longrightarrow> backward_history (history_manager c) = [] \<Longrightarrow>
   handle_choice_loop E nav (line # rest) c w =
   handle_choice_loop E nav rest c (py_print beginning_of_history (w\<lparr>stdin := rest\<rparr>))"
  by (simp add: Let_def go_back_empty)

lemma handle_choice_back_nonempty:
  "py_lower (py_strip line) = ''b'' \<Longrightarrow> backward_history (history_manager c) \<noteq> [] \<Longrightarrow>
   handle_choice_loop E nav (line # rest) c w =
     ((c\<lparr>history_manager := fst (go_back (history_manager c))\<rparr>, w\<lparr>stdin := rest\<rparr>),
      Raised AttributeError)"
  by (simp add: Let_def go_back_nonempty)

text \<open>\<open>_handle_user_choice\<close> returns nothing but \<open>"BACK"\<close>.\<close>

lemma handle_choice_loop_BACK:
  "handle_choice_loop E nav inputs c w = (s, Value action) \<Longrightarrow> action = ''BACK''"
  by (induction E nav inputs c w rule: handle_choice_loop.induct)
     (auto simp: Let_def split: if_splits prod.splits sum.splits result.splits)

text \<open>
  So the recording at the end of \<open>navigate\<close> is never reached: after
  \<open>_handle_user_choice\<close> the state is the one it returned.
\<close>

lemma after_choice_never_records:
  "fst (after_choice record_history server prt (handle_user_choice E nav data s))
   = fst (handle_user_choice E nav data s)"
proof (cases "handle_user_choice E nav data s")
  case (Pair s1 r)
  show ?thesis
  proof (cases r)
    case (Value action)
    with Pair have "handle_choice_loop E nav (stdin (snd s)) (fst s) (py_print data (snd s))
                    = (s1, Value action)"
      by (simp add: handle_user_choice_def)
    then have "action = ''BACK''" by (rule handle_choice_loop_BACK)
    with Pair Value show ?thesis by (simp add: after_choice_def)
  qed (simp_all add: Pair after_choice_def)
qed

lemma char_of_48: "char_of (48::nat) = CHR ''0''"
  by code_simp

lemma one_of_two_lines: "exceeds_threshold (Suc 0) (Suc (Suc 0)) = Inr True"
proof -
  have "exceeds_threshold 1 2 = Inr True"
    by (simp add: exceeds_threshold_def float_of_nat_def round_to_double_def float_mul_def
        twenty_percent_def int_gt_float_def)
  then show ?thesis by (simp add: numeral_2_eq_2)
qed

text \<open>
  C1. The history holds \<open>(a.example, 70)\<close> and \<open>(b.example, 70)\<close>, as two calls of
  \<open>record\<close> leave it, and the user answers \<open>b\<close> to the menu that \<open>b.example\<close> sends.
  \<open>navigate\<close> does not request anything from \<open>a.example\<close>: \<open>go_back\<close> pops the top
  and raises \<open>AttributeError\<close>, which \<open>navigate\<close> logs, and the call returns after
  the one request (three network operations: two connections and one exchange).
\<close>

theorem back_from_menu_raises:
  "navigate (Suc (Suc 0))
     \<lparr>create_connection = (\<lambda>t h p. None),
      exchange = (\<lambda>t h p selector.
         Inr (''1Docs'' @ [TAB] @ ''/docs'' @ [TAB] @ ''a.example'' @ [TAB] @ ''70'' @ [NL])),
      urlparse_str = (\<lambda>u. Inl ValueError)\<rparr>
     [] True (PStr ''b.example'') (PInt 70)
     (\<lparr>logging = [], host = PStr ''b.example'', port = PInt 70, timeout = 10, debug = False,
       socket = NoSocket, bookmarks = PList [], search_engines = PList [],
       history_manager =
         \<lparr>backward_history = [PTuple [PStr ''a.example'', PInt 70],
                               PTuple [PStr ''b.example'', PInt 70]],
          forward_history = [], max_history = 5, history_file = Some ''navigation_history.json''\<rparr>,
       is_navigating_back = False\<rparr>,
      \<lparr>stdin = [''b''], stdout = [], clock = 0\<rparr>)
   = ((\<lparr>logging = [''Error while navigating''], host = PStr ''b.example'', port = PInt 70,
        timeout = 10, debug = False, socket = Closed, bookmarks = PList [],
        search_engines = PList [],
        history_manager =
          \<lparr>backward_history = [PTuple [PStr ''a.example'', PInt 70]],
           forward_history = [PTuple [PStr ''b.example'', PInt 70]],
           max_history = 5, history_file = Some ''navigation_history.json''\<rparr>,
        is_navigating_back = False\<rparr>,
       \<lparr>stdin = [], stdout = [''0. [LINK] Docs'', ''q. Quit'', ''b. Go back'',
                              ''Attempting to go back...''], clock = 3\<rparr>),
      Value ())"
  by (simp add: ensure_connection_def is_connected_def connect_def establish_connection_def
      py_or_def tick_def send_request_def display_gopher_menu_def menu_line_count_def
      one_of_two_lines parse_gopher_menu_def Let_def get_user_choice_def print_gopher_menu_def
      enumerate_eq_zip menu_line_def show_nat.simps char_of_48 isdigit_def ascii_digit_def
      go_back_client_def go_back_def getattr_def ImprovedHistoryManager_attrs_def py_print_def
      catch_Exception_def is_Exception_def error_handler_def)

section \<open>Properties of navigate\<close>

lemma establish_connection_history:
  "history_manager (fst (fst (establish_connection E server prt s))) = history_manager (fst s)"
  by (simp add: establish_connection_def Let_def error_handler_def split: option.splits)

lemma establish_connection_logging:
  "length (logging (fst s)) \<le> length (logging (fst (fst (establish_connection E server prt s))))"
  by (simp add: establish_connection_def Let_def error_handler_def split: option.splits)

lemma establish_connection_raised:
  "snd (establish_connection E server prt s) = Raised e \<Longrightarrow> \<not> is_socket_error e"
  by (auto simp: establish_connection_def Let_def split: option.splits if_splits)

lemma establish_connection_fuel:
  "snd (establish_connection E server prt s) \<noteq> OutOfFuel"
  by (simp add: establish_connection_def Let_def split: option.splits)

lemma ensure_connection_history:
  "history_manager (fst (fst (ensure_connection E s))) = history_manager (fst s)"
  by (simp add: ensure_connection_def connect_def Let_def establish_connection_history)

lemma ensure_connection_logging:
  "length (logging (fst s)) \<le> length (logging (fst (fst (ensure_connection E s))))"
proof -
  have "length (logging (fst s))
        \<le> length (logging (fst (fst (establish_connection E PNone PNone (c, snd s)))))"
    if "logging c = logging (fst s)" for c
    using establish_connection_logging [of "(c, snd s)" E PNone PNone] that by simp
  then show ?thesis
    by (simp add: ensure_connection_def connect_def Let_def)
qed

lemma ensure_connection_raised:
  "snd (ensure_connection E s) = Raised e \<Longrightarrow> \<not> is_socket_error e"
  by (auto simp: ensure_connection_def connect_def Let_def
      dest: establish_connection_raised split: if_splits)

lemma caught_history: "history_manager (fst (fst (caught e s))) = history_manager (fst s)"
  by (simp add: caught_def error_handler_def)

lemma caught_None:
  "caught e s = (s2, Value None) \<Longrightarrow> length (logging (fst s2)) = Suc (length (logging (fst s)))"
  by (auto simp: caught_def error_handler_def split: if_splits)

lemma send_request_history:
  "history_manager (fst (fst (send_request E selector server prt s))) = history_manager (fst s)"
proof -
  obtain s1 r where est:
    "establish_connection E (if \<not> truthy server then host (fst s) else server)
       (if \<not> truthy prt then port (fst s) else prt) s = (s1, r)"
    by (cases "establish_connection E (if \<not> truthy server then host (fst s) else server)
       (if \<not> truthy prt then port (fst s) else prt) s") auto
  have h1: "history_manager (fst s1) = history_manager (fst s)"
    using establish_connection_history
      [of E "if \<not> truthy server then host (fst s) else server"
         "if \<not> truthy prt then port (fst s) else prt" s] est by simp
  show ?thesis
    using h1 est
    by (simp add: send_request_def Let_def caught_history
        split: result.splits sock.splits sum.splits)
qed

lemma send_request_None_logged:
  assumes "send_request E selector server prt s = (s2, Value None)"
  shows "length (logging (fst s)) < length (logging (fst s2))"
proof -
  obtain s1 r where est:
    "establish_connection E (if \<not> truthy server then host (fst s) else server)
       (if \<not> truthy prt then port (fst s) else prt) s = (s1, r)"
    by (cases "establish_connection E (if \<not> truthy server then host (fst s) else server)
       (if \<not> truthy prt then port (fst s) else prt) s") auto
  have l1: "length (logging (fst s)) \<le> length (logging (fst s1))"
    using establish_connection_logging
      [of s E "if \<not> truthy server then host (fst s) else server"
         "if \<not> truthy prt then port (fst s) else prt"] est by simp
  have "length (logging (fst s2)) = Suc (length (logging (fst s1)))"
    using assms est
    by (auto simp: send_request_def Let_def dest!: caught_None
        split: result.splits sock.splits sum.splits)
  with l1 show ?thesis by simp
qed

lemma catch_Exception_raised:
  "catch_Exception r = (s, Raised e) \<Longrightarrow> \<not> is_Exception e"
  by (auto simp: catch_Exception_def split: prod.splits result.splits if_splits)

lemma navigate_raised:
  assumes "snd (navigate fuel E selector record_history server prt s) = Raised e"
  shows "\<not> is_socket_error e"
proof (cases fuel)
  case 0
  with assms show ?thesis by simp
next
  case (Suc k)
  obtain s1 r where ens: "ensure_connection E s = (s1, r)"
    by (cases "ensure_connection E s") auto
  show ?thesis
  proof (cases r)
    case (Value u)
    with assms Suc ens obtain x where "catch_Exception x = (fst (catch_Exception x), Raised e)"
      by (auto simp: prod_eq_iff)
    then have "\<not> is_Exception e" by (rule catch_Exception_raised)
    then show ?thesis by (simp add: is_Exception_def is_socket_error_def)
  next
    case (Raised e')
    with assms Suc ens have "e' = e" by simp
    with Raised ens show ?thesis using ensure_connection_raised [of E s e] by simp
  next
    case OutOfFuel
    with assms Suc ens show ?thesis by simp
  qed
qed

text \<open>
  A request fails when the connection or the exchange raises an exception of class
  \<open>Exception\<close>; \<open>_send_request\<close> returns \<open>None\<close> then. It raises nothing of that class.
\<close>

lemma send_request_exchange_fails:
  assumes "establish_connection E (if \<not> truthy server then host (fst s) else server)
             (if \<not> truthy prt then port (fst s) else prt) s = (s1, Value ())"
    and "socket (fst s1) = Connected"
    and "exchange E (clock (snd s1)) (if \<not> truthy server then host (fst s) else server)
             (if \<not> truthy prt then port (fst s) else prt) selector = Inl e"
    and "is_Exception e"
  shows "snd (send_request E selector server prt s) = Value None"
  using assms by (simp add: send_request_def Let_def caught_def)

lemma caught_raised: "caught e s = (s2, Raised e') \<Longrightarrow> \<not> is_Exception e'"
  by (auto simp: caught_def split: if_splits)

lemma send_request_raised:
  assumes "send_request E selector server prt s = (s2, Raised e)"
  shows "\<not> is_Exception e"
proof -
  obtain s1 r where est:
    "establish_connection E (if \<not> truthy server then host (fst s) else server)
       (if \<not> truthy prt then port (fst s) else prt) s = (s1, r)"
    by (cases "establish_connection E (if \<not> truthy server then host (fst s) else server)
       (if \<not> truthy prt then port (fst s) else prt) s") auto
  show ?thesis
    using assms est
    by (auto simp: send_request_def Let_def dest!: caught_raised
        split: result.splits sock.splits sum.splits)
qed

text \<open>
  C8. When \<open>_ensure_connection\<close> has returned and the request fails
  (\<open>_send_request\<close> returns \<open>None\<close>), \<open>navigate\<close> returns normally, so that no
  exception propagates; the history manager is as it was before the call; and the
  logger has a new error record.
\<close>

theorem navigate_transport_failure:
  assumes "ensure_connection E s = (s1, Value ())"
    and "send_request E selector server prt s1 = (s2, Value None)"
  shows "navigate (Suc fuel) E selector record_history server prt s = (s2, Value ())
       \<and> history_manager (fst s2) = history_manager (fst s)
       \<and> length (logging (fst s)) < length (logging (fst s2))"
proof -
  have nav: "navigate (Suc fuel) E selector record_history server prt s = (s2, Value ())"
    using assms by (simp add: catch_Exception_def)
  have "history_manager (fst s1) = history_manager (fst s)"
    using ensure_connection_history [of E s] assms(1) by simp
  moreover have "history_manager (fst s2) = history_manager (fst s1)"
    using send_request_history [of E selector server prt s1] assms(2) by simp
  ultimately have hist: "history_manager (fst s2) = history_manager (fst s)" by simp
  have "length (logging (fst s)) \<le> length (logging (fst s1))"
    using ensure_connection_logging [of s E] assms(1) by simp
  moreover have "length (logging (fst s1)) < length (logging (fst s2))"
    using assms(2) by (rule send_request_None_logged)
  ultimately have "length (logging (fst s)) < length (logging (fst s2))" by simp
  with nav hist show ?thesis by simp
qed

text \<open>
  The exchange with \<open>a.example\<close> raises a socket error: \<open>navigate\<close> returns, one error
  record more, the history as before.
\<close>

theorem navigate_transport_failure_witness:
  "navigate (Suc 0)
     \<lparr>create_connection = (\<lambda>t h p. None), exchange = (\<lambda>t h p selector. Inl OSError),
      urlparse_str = (\<lambda>u. Inl ValueError)\<rparr>
     ''/docs'' True (PStr ''a.example'') (PInt 70)
     (\<lparr>logging = [], host = PStr ''a.example'', port = PInt 70, timeout = 10, debug = False,
       socket = NoSocket, bookmarks = PList [], search_engines = PList [],
       history_manager =
         \<lparr>backward_history = [PTuple [PStr ''a.example'', PInt 70]], forward_history = [],
          max_history = 5, history_file = Some ''navigation_history.json''\<rparr>,
       is_navigating_back = False\<rparr>,
      \<lparr>stdin = [], stdout = [], clock = 0\<rparr>)
   = ((\<lparr>logging = [''Error''], host = PStr ''a.example'', port = PInt 70, timeout = 10,
        debug = False, socket = Connected, bookmarks = PList [], search_engines = PList [],
        history_manager =
          \<lparr>backward_history = [PTuple [PStr ''a.example'', PInt 70]], forward_history = [],
           max_history = 5, history_file = Some ''navigation_history.json''\<rparr>,
        is_navigating_back = False\<rparr>,
       \<lparr>stdin = [], stdout = [], clock = 3\<rparr>),
      Value ())"
proof -
  let ?E = "\<lparr>create_connection = (\<lambda>t h p. None), exchange = (\<lambda>t h p selector. Inl OSError),
      urlparse_str = (\<lambda>u. Inl ValueError)\<rparr>"
  let ?h = "\<lparr>backward_history = [PTuple [PStr ''a.example'', PInt 70]], forward_history = [],
          max_history = 5, history_file = Some ''navigation_history.json''\<rparr>"
  let ?c = "\<lparr>logging = [], host = PStr ''a.example'', port = PInt 70, timeout = 10, debug = False,
       socket = NoSocket, bookmarks = PList [], search_engines = PList [],
       history_manager = ?h, is_navigating_back = False\<rparr>"
  let ?s = "(?c, \<lparr>stdin = [], stdout = [], clock = 0\<rparr>)"
  let ?s1 = "(?c\<lparr>socket := Connected\<rparr>, \<lparr>stdin = [], stdout = [], clock = 1\<rparr>)"
  let ?s2 = "(?c\<lparr>socket := Connected, logging := [''Error'']\<rparr>,
              \<lparr>stdin = [], stdout = [], clock = 3\<rparr>)"
  have e: "ensure_connection ?E ?s = (?s1, Value ())"
    by (simp add: ensure_connection_def is_connected_def connect_def establish_connection_def
        py_or_def tick_def Let_def)
  have r: "send_request ?E ''/docs'' (PStr ''a.example'') (PInt 70) ?s1 = (?s2, Value None)"
    by (simp add: send_request_def establish_connection_def py_or_def tick_def Let_def
        caught_def is_Exception_def error_handler_def)
  from navigate_transport_failure [OF e r, of 0 True] show ?thesis by simp
qed

section \<open>Properties of the files\<close>

lemma backup_name_differs: "backup_name filename \<noteq> filename"
  by (simp add: backup_name_def)

lemma backup_phase_made:
  assumes "fs filename = Some previous" and "backup_copy F = Done"
  shows "backup_phase F filename (fs, c) = Inr (True, fs(backup_name filename \<mapsto> previous), c)"
  using assms by (simp add: backup_phase_def Let_def)

lemma backup_phase_failed:
  assumes "fs filename = Some previous" and "backup_copy F = Fails left"
  shows "backup_phase F filename (fs, c)
         = Inl (fs(backup_name filename := left), error_handler ''Error while creating a backup'' c)"
  using assms by (simp add: backup_phase_def Let_def)

lemma write_phase_failed:
  assumes "write_file F = Fails left" and "fs (backup_name filename) = Some previous"
  shows "fst (write_phase F filename data True (fs, c)) (backup_name filename) = Some previous"
    and "restore_copy F = Done \<Longrightarrow>
         fst (write_phase F filename data True (fs, c)) filename = Some previous"
  using assms backup_name_differs [of filename]
  by (auto simp: write_phase_def Let_def split: io.splits)

lemma write_phase_failed_log:
  assumes "write_file F = Fails left" and "fs (backup_name filename) = Some previous"
  shows "restore_copy F = Done \<Longrightarrow>
         logging (snd (write_phase F filename data True (fs, c)))
         = logging c @ [''Error while saving data'']"
    and "restore_copy F = Fails left1 \<Longrightarrow>
         fst (write_phase F filename data True (fs, c)) filename = left1
         \<and> logging (snd (write_phase F filename data True (fs, c)))
           = logging c @ [''Error while saving data'', ''Error while restoring from backup'']"
  using assms backup_name_differs [of filename]
  by (auto simp: write_phase_def Let_def error_handler_def)

text \<open>
  C9, as amended. For a write to an existing file: when the backup succeeds, the
  write starts with the backup holding the previous content; when the backup
  fails, the error is logged and nothing is written to the file; when the write
  fails, the backup still holds the previous content afterwards; if the restoring
  copy then succeeds, the file holds the previous content again and the failed
  write is logged; if the restoring copy fails too, the file is left as that copy
  left it and both errors are logged.
\<close>

theorem save_to_file_keeps_previous:
  assumes "fs filename = Some previous"
  shows "(backup_copy F = Done \<longrightarrow>
            backup_phase F filename (fs, c)
            = Inr (True, fs(backup_name filename \<mapsto> previous), c))
       \<and> (backup_copy F \<noteq> Done \<longrightarrow>
            fst (save_to_file F filename data (fs, c)) filename = Some previous
            \<and> logging (snd (save_to_file F filename data (fs, c)))
              = logging c @ [''Error while creating a backup''])
       \<and> (backup_copy F = Done \<and> write_file F \<noteq> Done \<longrightarrow>
            fst (save_to_file F filename data (fs, c)) (backup_name filename) = Some previous
            \<and> (restore_copy F = Done \<longrightarrow>
                 fst (save_to_file F filename data (fs, c)) filename = Some previous
                 \<and> logging (snd (save_to_file F filename data (fs, c)))
                   = logging c @ [''Error while saving data''])
            \<and> (restore_copy F = Fails left1 \<longrightarrow>
                 fst (save_to_file F filename data (fs, c)) filename = left1
                 \<and> logging (snd (save_to_file F filename data (fs, c)))
                   = logging c @ [''Error while saving data'',
                                  ''Error while restoring from backup'']))"
proof (intro conjI impI)
  assume "backup_copy F = Done"
  then show "backup_phase F filename (fs, c)
             = Inr (True, fs(backup_name filename \<mapsto> previous), c)"
    using assms by (rule backup_phase_made [rotated])
next
  assume "backup_copy F \<noteq> Done"
  then obtain left where b: "backup_copy F = Fails left" by (cases "backup_copy F") auto
  show "fst (save_to_file F filename data (fs, c)) filename = Some previous"
    using b assms backup_name_differs [of filename]
    by (simp add: save_to_file_def backup_phase_failed)
  show "logging (snd (save_to_file F filename data (fs, c)))
        = logging c @ [''Error while creating a backup'']"
    using b assms by (simp add: save_to_file_def backup_phase_failed error_handler_def)
next
  assume a: "backup_copy F = Done \<and> write_file F \<noteq> Done"
  then obtain left where w: "write_file F = Fails left" by (cases "write_file F") auto
  have s: "save_to_file F filename data (fs, c)
           = write_phase F filename data True (fs(backup_name filename \<mapsto> previous), c)"
    using a assms by (simp add: save_to_file_def backup_phase_made)
  show "fst (save_to_file F filename data (fs, c)) (backup_name filename) = Some previous"
    unfolding s by (rule write_phase_failed(1) [OF w]) simp
  show "fst (save_to_file F filename data (fs, c)) filename = Some previous"
    if "restore_copy F = Done"
    unfolding s by (rule write_phase_failed(2) [OF w _ that]) simp
  show "logging (snd (save_to_file F filename data (fs, c)))
        = logging c @ [''Error while saving data'']"
    if "restore_copy F = Done"
    unfolding s by (rule write_phase_failed_log(1) [OF w _ that]) simp
  have both: "fst (save_to_file F filename data (fs, c)) filename = left1
      \<and> logging (snd (save_to_file F filename data (fs, c)))
        = logging c @ [''Error while saving data'', ''Error while restoring from backup'']"
    if "restore_copy F = Fails left1"
    unfolding s by (rule write_phase_failed_log(2) [OF w _ that]) simp
  show "fst (save_to_file F filename data (fs, c)) filename = left1"
    if "restore_copy F = Fails left1"
    using both [OF that] by simp
  show "logging (snd (save_to_file F filename data (fs, c)))
        = logging c @ [''Error while saving data'', ''Error while restoring from backup'']"
    if "restore_copy F = Fails left1"
    using both [OF that] by simp
qed

text \<open>
  The write to \<open>config.json\<close> fails and leaves a truncated file; the restoring copy
  succeeds: file and backup hold the previous document, and the failed write is
  logged.
\<close>

theorem save_to_file_keeps_previous_witness:
  "fst (save_to_file
          \<lparr>backup_copy = Done, write_file = Fails (Some Undecodable),
           restore_copy = Done, remove_backup = Done\<rparr>
          ''config.json'' (PDict [(''hostname'', PStr ''b.example'')])
          ((\<lambda>f. None)(''config.json'' \<mapsto> Doc (PDict [(''hostname'', PStr ''a.example'')])),
           GopherClient_init (PStr ''b.example'') (PInt 70) 10 False (PList []) (PList [])))
       ''config.json''
   = Some (Doc (PDict [(''hostname'', PStr ''a.example'')]))
   \<and> fst (save_to_file
          \<lparr>backup_copy = Done, write_file = Fails (Some Undecodable),
           restore_copy = Done, remove_backup = Done\<rparr>
          ''config.json'' (PDict [(''hostname'', PStr ''b.example'')])
          ((\<lambda>f. None)(''config.json'' \<mapsto> Doc (PDict [(''hostname'', PStr ''a.example'')])),
           GopherClient_init (PStr ''b.example'') (PInt 70) 10 False (PList []) (PList [])))
       (backup_name ''config.json'')
   = Some (Doc (PDict [(''hostname'', PStr ''a.example'')]))
   \<and> logging (snd (save_to_file
          \<lparr>backup_copy = Done, write_file = Fails (Some Undecodable),
           restore_copy = Done, remove_backup = Done\<rparr>
          ''config.json'' (PDict [(''hostname'', PStr ''b.example'')])
          ((\<lambda>f. None)(''config.json'' \<mapsto> Doc (PDict [(''hostname'', PStr ''a.example'')])),
           GopherClient_init (PStr ''b.example'') (PInt 70) 10 False (PList []) (PList []))))
   = [''Error while saving data'']"
  using save_to_file_keeps_previous
    [of "(\<lambda>f. None)(''config.json'' \<mapsto> Doc (PDict [(''hostname'', PStr ''a.example'')]))"
        "''config.json''" "Doc (PDict [(''hostname'', PStr ''a.example'')])"
        "\<lparr>backup_copy = Done, write_file = Fails (Some Undecodable),
           restore_copy = Done, remove_backup = Done\<rparr>"
        "GopherClient_init (PStr ''b.example'') (PInt 70) 10 False (PList []) (PList [])"
        "PDict [(''hostname'', PStr ''b.example'')]"]
  by (simp add: GopherClient_init_def)

text \<open>
  C9, counterexample. The write fails and leaves a truncated file, and the restoring
  copy fails too: \<open>config.json\<close> is left truncated, not restored.
\<close>

theorem save_to_file_restore_fails:
  "fst (save_to_file
          \<lparr>backup_copy = Done, write_file = Fails (Some Undecodable),
           restore_copy = Fails (Some Undecodable), remove_backup = Done\<rparr>
          ''config.json'' (PDict [(''hostname'', PStr ''b.example'')])
          ((\<lambda>f. None)(''config.json'' \<mapsto> Doc (PDict [(''hostname'', PStr ''a.example'')])),
           GopherClient_init (PStr ''b.example'') (PInt 70) 10 False (PList []) (PList [])))
       ''config.json''
   = Some Undecodable"
  by (simp add: save_to_file_def backup_phase_def write_phase_def backup_name_def Let_def)

text \<open>
  What \<open>save_config\<close> writes, and what \<open>load_config\<close> makes of a file without the
  keys \<open>backward\<close> and \<open>forward\<close>: the lists of the loading client stay as they are.
\<close>

lemma save_config_written:
  assumes "backup_copy F = Done" and "write_file F = Done"
  shows "fst (save_config F (fs, c, w)) CONFIG_FILE
         = Some (Doc (PDict [(''hostname'', to_json (host c)), (''port'', to_json (port c)),
              (''backward_history'', PList (map to_json (backward_history (history_manager c)))),
              (''forward_history'', PList (map to_json (forward_history (history_manager c))))]))"
  using assms backup_name_differs [of CONFIG_FILE]
  by (auto simp: save_config_def save_to_file_def backup_phase_def write_phase_def Let_def
      split: io.splits)

lemma load_config_own_history:
  assumes "fs CONFIG_FILE = Some (Doc (PDict config))"
    and "map_of config ''backward'' = None" and "map_of config ''forward'' = None"
  shows "load_config False (fs, c)
         = Loaded (c\<lparr>host := dict_get config ''hostname'' (host c),
                     port := dict_get config ''port'' (port c)\<rparr>)"
  using assms
  by (simp add: load_config_def load_from_file_def dict_get_def Let_def split: option.splits)

lemma restore_after_save_config:
  assumes "backup_copy F = Done" and "write_file F = Done"
  shows "load_config False (fst (save_config F (fs, c, w)), fresh)
         = Loaded (fresh\<lparr>host := to_json (host c), port := to_json (port c)\<rparr>)"
proof -
  have "fst (save_config F (fs, c, w)) CONFIG_FILE
        = Some (Doc (PDict [(''hostname'', to_json (host c)), (''port'', to_json (port c)),
            (''backward_history'', PList (map to_json (backward_history (history_manager c)))),
            (''forward_history'', PList (map to_json (forward_history (history_manager c))))]))"
    using assms by (rule save_config_written)
  then show ?thesis
    by (simp add: load_config_def load_from_file_def dict_get_def Let_def)
qed

text \<open>
  \<open>_save_history\<close> writes the keys that \<open>load_config\<close> reads, but to the history file,
  which \<open>load_config\<close> does not open: without a configuration file the default
  \<open>[]\<close> has no \<open>get\<close>.
\<close>

lemma restore_after_save_history:
  assumes "fs CONFIG_FILE = None" and "history_file h = Some HISTORY_FILE"
  shows "load_config False (fst (save_history Done h fs), fresh) = Load_raised AttributeError fresh"
  using assms
  by (simp add: save_history_def load_config_def load_from_file_def HISTORY_FILE_def
      CONFIG_FILE_def)

text \<open>
  C2. A client with backward list \<open>[(a.example, 70)]\<close> and forward list
  \<open>[(b.example, 70)]\<close> saves its configuration, nothing failing, and a fresh client
  loads it: host and port are restored, both lists of the fresh client are still
  empty.
\<close>

theorem restore_after_save_loses_history:
  "load_config False
     (fst (save_config
             \<lparr>backup_copy = Done, write_file = Done, restore_copy = Done, remove_backup = Done\<rparr>
             ((\<lambda>f. None),
              \<lparr>logging = [], host = PStr ''b.example'', port = PInt 70, timeout = 10,
               debug = False, socket = NoSocket, bookmarks = PList [], search_engines = PList [],
               history_manager =
                 \<lparr>backward_history = [PTuple [PStr ''a.example'', PInt 70]],
                  forward_history = [PTuple [PStr ''b.example'', PInt 70]],
                  max_history = 5, history_file = Some ''navigation_history.json''\<rparr>,
               is_navigating_back = False\<rparr>,
              \<lparr>stdin = [], stdout = [], clock = 0\<rparr>)),
      GopherClient_init (PStr ''1436.ninja'') (PInt 70) 10 False (PList []) (PList []))
   = Loaded
      \<lparr>logging = [], host = PStr ''b.example'', port = PInt 70, timeout = 10,
       debug = False, socket = NoSocket, bookmarks = PList [], search_engines = PList [],
       history_manager =
         \<lparr>backward_history = [], forward_history = [], max_history = 5,
          history_file = Some ''navigation_history.json''\<rparr>,
       is_navigating_back = False\<rparr>"
  by (simp add: save_config_def save_to_file_def backup_phase_def write_phase_def
      backup_name_def CONFIG_FILE_def load_config_def load_from_file_def dict_get_def Let_def
      GopherClient_init_def ImprovedHistoryManager_init_def HISTORY_FILE_def)

section \<open>Properties of go_forward\<close>

lemma client_has_no_history_index:
  "getattr GopherClient_attrs ''history_index'' = Inl AttributeError"
  by (simp add: getattr_def GopherClient_attrs_def)

text \<open>
  C10. Every call of \<open>go_forward\<close> raises \<open>AttributeError\<close> at its first step, whatever
  the state of the client and whatever follows the two reads.
\<close>

theorem go_forward_raises: "go_forward rest s = (s, Raised AttributeError)"
  by (simp add: go_forward_def getattr_def GopherClient_attrs_def)

end
